theory Spec2Isabelle
  imports Main "HOL-Library.Multiset"
begin

section \<open>Dates\<close>

text \<open>
  A JavaScript \<^verbatim>\<open>Date\<close> holds a time value: a whole number of milliseconds since the
  epoch, or NaN (an "Invalid Date"). The time values of valid dates lie within
  8.64e15 of zero, so they and the signs of their differences are exact in a double;
  the model uses unbounded integers. A \<^verbatim>\<open>Date\<close> object is always truthy.
\<close>

datatype jsdate = Date int | InvalidDate

fun isValid :: "jsdate \<Rightarrow> bool" where
  "isValid (Date t) = True"
| "isValid InvalidDate = False"

text \<open>\<^verbatim>\<open>d.getTime()\<close>; \<open>None\<close> stands for NaN.\<close>

fun getTime :: "jsdate \<Rightarrow> int option" where
  "getTime (Date t) = Some t"
| "getTime InvalidDate = None"

definition msPerDay :: int where
  "msPerDay = 86400000"

text \<open>The first millisecond of the calendar day of a time value.\<close>

definition startOfDay :: "int \<Rightarrow> int" where
  "startOfDay t = t - t mod msPerDay"

text \<open>
  \<^verbatim>\<open>new Date(new Date(d).toDateString())\<close>, the expression the source uses wherever it
  truncates a date to its calendar day. \<^verbatim>\<open>toDateString\<close> prints the local calendar day and
  the constructor reads it back as local midnight; the model takes the local time zone
  to be UTC. An invalid date prints as "Invalid Date", which reads back as an invalid
  date.

  The model is the truncation to the day. It is what the expression computes for the
  dates of the year 100 and later (\<open>fromYear100\<close> below). Before that the string does
  not read back as the day it names: a year from 0 to 99 is read as a year from 1950 to
  2049, and a negative year makes the string an invalid date. The theorems that depend
  on the value of the expression are stated for the dates of the year 100 and later.
\<close>

fun normalizeDate :: "jsdate \<Rightarrow> jsdate" where
  "normalizeDate (Date t) = Date (startOfDay t)"
| "normalizeDate InvalidDate = InvalidDate"

text \<open>
  The same expression on a value that may be \<^verbatim>\<open>undefined\<close> (an array read out of range):
  \<^verbatim>\<open>new Date(undefined)\<close> is an invalid date.
\<close>

fun normalizeDateU :: "jsdate option \<Rightarrow> jsdate" where
  "normalizeDateU None = InvalidDate"
| "normalizeDateU (Some d) = normalizeDate d"

text \<open>
  The comparisons of date-fns, which compare time values; every comparison with NaN is
  false.
\<close>

fun isEqual :: "jsdate \<Rightarrow> jsdate \<Rightarrow> bool" where
  "isEqual (Date a) (Date b) = (a = b)"
| "isEqual _ _ = False"

fun isBefore :: "jsdate \<Rightarrow> jsdate \<Rightarrow> bool" where
  "isBefore (Date a) (Date b) = (a < b)"
| "isBefore _ _ = False"

fun isAfter :: "jsdate \<Rightarrow> jsdate \<Rightarrow> bool" where
  "isAfter (Date a) (Date b) = (a > b)"
| "isAfter _ _ = False"

subsection \<open>Arrays of dates\<close>

text \<open>\<^verbatim>\<open>xs[i]\<close>: reading past the end gives \<^verbatim>\<open>undefined\<close>, here \<open>None\<close>.\<close>

fun index :: "'a list \<Rightarrow> nat \<Rightarrow> 'a option" where
  "index [] i = None"
| "index (x # xs) 0 = Some x"
| "index (x # xs) (Suc i) = index xs i"

text \<open>
  \<^verbatim>\<open>(a, b) => a.getTime() - b.getTime()\<close>, the comparator of every sort in the source.
  The difference is NaN when either date is invalid.
\<close>

definition compareFn :: "jsdate \<Rightarrow> jsdate \<Rightarrow> int option" where
  "compareFn a b =
     (case getTime a of
        None \<Rightarrow> None
      | Some x \<Rightarrow> (case getTime b of None \<Rightarrow> None | Some y \<Rightarrow> Some (x - y)))"

text \<open>
  \<^verbatim>\<open>Array.prototype.sort\<close> with that comparator: a stable sort, in which a comparator
  result of NaN counts as +0. It is written as an insertion sort. On arrays of valid
  dates this is the order every engine yields; with an invalid date in the array the
  comparator is inconsistent and the order is implementation-defined, of which this is
  one.
\<close>

definition sortCompare :: "jsdate \<Rightarrow> jsdate \<Rightarrow> int" where
  "sortCompare a b = (case compareFn a b of None \<Rightarrow> 0 | Some v \<Rightarrow> v)"

fun sortInsert :: "jsdate \<Rightarrow> jsdate list \<Rightarrow> jsdate list" where
  "sortInsert x [] = [x]"
| "sortInsert x (y # ys) =
     (if sortCompare x y \<le> 0 then x # y # ys else y # sortInsert x ys)"

fun sortDates :: "jsdate list \<Rightarrow> jsdate list" where
  "sortDates [] = []"
| "sortDates (x # xs) = sortInsert x (sortDates xs)"

section \<open>Selections\<close>

text \<open>
  \<^verbatim>\<open>RangeSelection = {from: Date, to: Date | null}\<close>, with the keys in the order
  \<^verbatim>\<open>from\<close>, \<^verbatim>\<open>to\<close> in which every object literal of the source writes them.
\<close>

datatype rangeSelection = FromTo (rangeFrom: jsdate) (rangeTo: "jsdate option")

text \<open>
  \<^verbatim>\<open>Selection = Date | Array<Date> | RangeSelection | null\<close>. A selection that is
  \<^verbatim>\<open>null\<close> or \<^verbatim>\<open>undefined\<close> is \<open>None\<close> of \<open>selection option\<close>: the source tests both
  by falsiness only. \<open>SOther\<close> is a truthy value of no recognised shape, for instance
  the object \<^verbatim>\<open>{}\<close>: the declared types exclude it, the run-time checks of the source
  have a branch for it. The string forms of \<^verbatim>\<open>StringSelection\<close> are outside the model:
  they go through the string parser of the \<^verbatim>\<open>Date\<close> constructor.
\<close>

datatype selection =
    SDate jsdate
  | SArray "jsdate list"
  | SRange rangeSelection
  | SOther

text \<open>\<^verbatim>\<open>selection instanceof Date\<close>\<close>

fun isSingleSelection :: "selection \<Rightarrow> bool" where
  "isSingleSelection (SDate d) = True"
| "isSingleSelection _ = False"

text \<open>\<^verbatim>\<open>Array.isArray(selection)\<close>\<close>

fun isMultiSelection :: "selection \<Rightarrow> bool" where
  "isMultiSelection (SArray ds) = True"
| "isMultiSelection _ = False"

text \<open>\<^verbatim>\<open>!!selection.from\<close>: only a range has a \<^verbatim>\<open>from\<close>, and a date is truthy.\<close>

fun isRangeSelection :: "selection \<Rightarrow> bool" where
  "isRangeSelection (SRange r) = True"
| "isRangeSelection _ = False"

subsection \<open>The parser\<close>

text \<open>
  \<^verbatim>\<open>parseSelection(selection, variant)\<close>. The variant is the configuration's
  \<^verbatim>\<open>selection\<close> field, an optional string; whatever is neither \<^verbatim>\<open>'multi'\<close> nor
  \<^verbatim>\<open>'range'\<close> takes the last branch. A value no branch accepts falls through to
  \<^verbatim>\<open>undefined\<close>.
\<close>

definition parseSelection :: "selection option \<Rightarrow> string option \<Rightarrow> selection option" where
  "parseSelection selection variant =
     (case selection of
        None \<Rightarrow> None
      | Some sel \<Rightarrow>
          if variant = Some ''multi'' then
            (case sel of
               SArray ds \<Rightarrow> Some (SArray (sortDates (map normalizeDate ds)))
             | SDate d \<Rightarrow> Some (SArray [normalizeDate d])
             | SRange r \<Rightarrow>
                 Some (SArray (sortDates
                   (normalizeDate (rangeFrom r) #
                     (case rangeTo r of None \<Rightarrow> [] | Some t \<Rightarrow> [normalizeDate t]))))
             | SOther \<Rightarrow> None)
          else if variant = Some ''range'' then
            (case sel of
               SRange r \<Rightarrow>
                 Some (SRange (FromTo (normalizeDate (rangeFrom r))
                   (case rangeTo r of None \<Rightarrow> None | Some t \<Rightarrow> Some (normalizeDate t))))
             | SArray ds \<Rightarrow>
                 Some (SRange (FromTo (normalizeDateU (index ds 0))
                   (case index ds 1 of None \<Rightarrow> None | Some t \<Rightarrow> Some (normalizeDate t))))
             | SDate d \<Rightarrow> Some (SRange (FromTo (normalizeDate d) None))
             | SOther \<Rightarrow> None)
          else
            (case sel of
               SDate d \<Rightarrow> Some (SDate (normalizeDate d))
             | SArray ds \<Rightarrow> Some (SDate (normalizeDateU (index ds 0)))
             | SRange r \<Rightarrow> Some (SDate (normalizeDate (rangeFrom r)))
             | SOther \<Rightarrow> None))"

section \<open>Configuration\<close>

text \<open>
  \<^verbatim>\<open>DatePickerConfiguration\<close>: every field is optional. The field the source calls
  \<^verbatim>\<open>selection\<close> (of type \<^verbatim>\<open>SelectionVariant\<close>) is \<open>selectionVariant\<close> here, the name
  \<open>selection\<close> being kept for the selection the provider holds. The string-valued
  fields are strings, as they are at run time.
\<close>

record DatePickerConfiguration =
  anchorVariant :: "string option"
  blockedDates :: "jsdate list option"
  confirmation :: "bool option"
  contiguousSelection :: "bool option"
  dateFormat :: "string option"
  dimWeekends :: "bool option"
  minDate :: "jsdate option"
  maxDate :: "jsdate option"
  placeholder :: "string option"
  rangeIncrement :: "int option"
  selectionVariant :: "string option"
  view :: "string option"
  weekStartsOn :: "string option"

text \<open>The configuration \<^verbatim>\<open>{}\<close>, the default of the provider's \<^verbatim>\<open>configuration\<close> prop.\<close>

definition emptyConfiguration :: DatePickerConfiguration where
  "emptyConfiguration =
     \<lparr>anchorVariant = None, blockedDates = None, confirmation = None,
      contiguousSelection = None, dateFormat = None, dimWeekends = None,
      minDate = None, maxDate = None, placeholder = None, rangeIncrement = None,
      selectionVariant = None, view = None, weekStartsOn = None\<rparr>"

definition defaultConfiguration :: DatePickerConfiguration where
  "defaultConfiguration =
     emptyConfiguration
       \<lparr>anchorVariant := Some ''button'', confirmation := Some False,
        contiguousSelection := Some False, dimWeekends := Some False,
        placeholder := Some ''Select a Date...'', selectionVariant := Some ''single'',
        view := Some ''2-month'', weekStartsOn := Some ''Sunday''\<rparr>"

text \<open>
  \<^verbatim>\<open>deepmerge(x, y)\<close> on configurations: a key of \<open>y\<close> overrides the key of \<open>x\<close>, and
  two arrays are concatenated. Dates are not merged but taken as they are. \<open>None\<close>
  is a key that is absent; a key that is present with the value \<^verbatim>\<open>undefined\<close> is
  outside the model.
\<close>

definition override :: "'a option \<Rightarrow> 'a option \<Rightarrow> 'a option" where
  "override x y = (case y of None \<Rightarrow> x | Some v \<Rightarrow> Some v)"

definition deepmerge ::
  "DatePickerConfiguration \<Rightarrow> DatePickerConfiguration \<Rightarrow> DatePickerConfiguration" where
  "deepmerge x y =
     \<lparr>anchorVariant = override (anchorVariant x) (anchorVariant y),
      blockedDates =
        (case blockedDates x of
           None \<Rightarrow> blockedDates y
         | Some a \<Rightarrow> (case blockedDates y of None \<Rightarrow> Some a | Some b \<Rightarrow> Some (a @ b))),
      confirmation = override (confirmation x) (confirmation y),
      contiguousSelection = override (contiguousSelection x) (contiguousSelection y),
      dateFormat = override (dateFormat x) (dateFormat y),
      dimWeekends = override (dimWeekends x) (dimWeekends y),
      minDate = override (minDate x) (minDate y),
      maxDate = override (maxDate x) (maxDate y),
      placeholder = override (placeholder x) (placeholder y),
      rangeIncrement = override (rangeIncrement x) (rangeIncrement y),
      selectionVariant = override (selectionVariant x) (selectionVariant y),
      view = override (view x) (view y),
      weekStartsOn = override (weekStartsOn x) (weekStartsOn y)\<rparr>"

section \<open>The provider\<close>

text \<open>
  The state of a \<^verbatim>\<open>DatePickerProvider\<close>: its five \<^verbatim>\<open>useState\<close> cells, whether the
  \<^verbatim>\<open>closePicker\<close> prop was given, and two counters that record what the handlers did:
  \<open>closed\<close> counts the calls of \<^verbatim>\<open>closePicker\<close>, \<open>saved\<close> the calls of \<^verbatim>\<open>saveValue\<close>.
  A handler runs on the state of the last render and its updates are applied before
  the next handler runs.
\<close>

record provider =
  configuration :: DatePickerConfiguration
  previousSelection :: "selection option"
  selection :: "selection option"
  hoverRange :: "rangeSelection option"
  currentViewingDate :: jsdate
  closePicker :: bool
  closed :: nat
  saved :: nat

record DatePickerProviderProps =
  closePickerProp :: bool
  configurationProp :: "DatePickerConfiguration option"
  valueProp :: "selection option"

text \<open>The first render; \<open>now\<close> is \<^verbatim>\<open>new Date()\<close>.\<close>

definition DatePickerProvider :: "jsdate \<Rightarrow> DatePickerProviderProps \<Rightarrow> provider" where
  "DatePickerProvider now props =
     (let externalConfig =
            (case configurationProp props of None \<Rightarrow> emptyConfiguration | Some c \<Rightarrow> c);
          config = deepmerge defaultConfiguration externalConfig
      in \<lparr>configuration = config,
          previousSelection = parseSelection (valueProp props) (selectionVariant config),
          selection = parseSelection (valueProp props) (selectionVariant config),
          hoverRange = None,
          currentViewingDate = now,
          closePicker = closePickerProp props,
          closed = 0,
          saved = 0\<rparr>)"

text \<open>
  The body of the provider's \<^verbatim>\<open>useEffect\<close>, which runs after the first render and
  whenever the external configuration or the selection variant changes: it merges the
  configuration again and parses the selection it holds against the variant of the
  render it belongs to.
\<close>

definition configurationEffect :: "DatePickerConfiguration \<Rightarrow> provider \<Rightarrow> provider" where
  "configurationEffect externalConfig s =
     s\<lparr>configuration := deepmerge defaultConfiguration externalConfig,
       selection := parseSelection (selection s) (selectionVariant (configuration s))\<rparr>"

text \<open>
  The provider once mounted: the first render, then the effect. This is the provider
  of a caller that passes a configuration object and keeps passing the same one;
  without the prop every render makes a new default object and the effect runs again
  after each.
\<close>

definition mounted :: "jsdate \<Rightarrow> DatePickerProviderProps \<Rightarrow> provider" where
  "mounted now props =
     configurationEffect
       (case configurationProp props of None \<Rightarrow> emptyConfiguration | Some c \<Rightarrow> c)
       (DatePickerProvider now props)"

subsection \<open>Calendar months\<close>

text \<open>
  \<^verbatim>\<open>addMonths\<close> and \<^verbatim>\<open>subMonths\<close> of date-fns in the proleptic Gregorian calendar (UTC):
  the same day of the month, or the last day of the target month when that is shorter,
  at the same time of day; an invalid date when that is beyond the largest time value.
  Days are counted from the epoch.
\<close>

definition civilFromDays :: "int \<Rightarrow> int \<times> int \<times> int" where
  "civilFromDays days =
     (let z = days + 719468;
          era = z div 146097;
          doe = z mod 146097;
          yoe = (doe - doe div 1460 + doe div 36524 - doe div 146096) div 365;
          doy = doe - (365 * yoe + yoe div 4 - yoe div 100);
          mp = (5 * doy + 2) div 153;
          d = doy - (153 * mp + 2) div 5 + 1;
          m = (if mp < 10 then mp + 3 else mp - 9);
          y = yoe + era * 400
      in (if m \<le> 2 then y + 1 else y, m, d))"

definition daysFromCivil :: "int \<Rightarrow> int \<Rightarrow> int \<Rightarrow> int" where
  "daysFromCivil year m d =
     (let y = (if m \<le> 2 then year - 1 else year);
          era = y div 400;
          yoe = y mod 400;
          doy = (153 * (if m > 2 then m - 3 else m + 9) + 2) div 5 + d - 1;
          doe = yoe * 365 + yoe div 4 - yoe div 100 + doy
      in era * 146097 + doe - 719468)"

definition daysInMonth :: "int \<Rightarrow> int \<Rightarrow> int" where
  "daysInMonth y m =
     (if m = 12 then daysFromCivil (y + 1) 1 1 else daysFromCivil y (m + 1) 1)
       - daysFromCivil y m 1"

fun addMonths :: "jsdate \<Rightarrow> int \<Rightarrow> jsdate" where
  "addMonths InvalidDate amount = InvalidDate"
| "addMonths (Date t) amount =
     (case civilFromDays (t div msPerDay) of
        (y, m, d) \<Rightarrow>
          let months = y * 12 + (m - 1) + amount;
              y' = months div 12;
              m' = months mod 12 + 1;
              d' = min d (daysInMonth y' m');
              r = daysFromCivil y' m' d' * msPerDay + t mod msPerDay
          in if \<bar>r\<bar> \<le> 8640000000000000 then Date r else InvalidDate)"

declare addMonths.simps [simp del]

definition subMonths :: "jsdate \<Rightarrow> int \<Rightarrow> jsdate" where
  "subMonths d amount = addMonths d (- amount)"

subsection \<open>Navigation\<close>

definition goToMonth :: "jsdate \<Rightarrow> provider \<Rightarrow> provider" where
  "goToMonth date s = s\<lparr>currentViewingDate := normalizeDate date\<rparr>"

definition nextMonth :: "provider \<Rightarrow> provider" where
  "nextMonth s = s\<lparr>currentViewingDate := addMonths (currentViewingDate s) 1\<rparr>"

definition previousMonth :: "provider \<Rightarrow> provider" where
  "previousMonth s = s\<lparr>currentViewingDate := subMonths (currentViewingDate s) 1\<rparr>"

subsection \<open>Commit and revert\<close>

text \<open>
  \<^verbatim>\<open>saveValue(updatedSelection?)\<close>: \<^verbatim>\<open>setPreviousSelection(updatedSelection ?? selection)\<close>,
  then \<^verbatim>\<open>closePicker?.()\<close>.
\<close>

definition saveValue :: "selection option \<Rightarrow> provider \<Rightarrow> provider" where
  "saveValue updatedSelection s =
     s\<lparr>previousSelection :=
         (case updatedSelection of None \<Rightarrow> selection s | Some u \<Rightarrow> Some u),
       closed := (if closePicker s then Suc (closed s) else closed s),
       saved := Suc (saved s)\<rparr>"

definition revertValue :: "provider \<Rightarrow> provider" where
  "revertValue s = s\<lparr>selection := previousSelection s\<rparr>"

subsection \<open>Choosing a day\<close>

datatype error = TypeError | RangeError

text \<open>\<^verbatim>\<open>xs.findIndex(p)\<close>; \<open>None\<close> stands for -1.\<close>

fun findIndex :: "('a \<Rightarrow> bool) \<Rightarrow> 'a list \<Rightarrow> nat option" where
  "findIndex p [] = None"
| "findIndex p (x # xs) =
     (if p x then Some 0
      else (case findIndex p xs of None \<Rightarrow> None | Some i \<Rightarrow> Some (Suc i)))"

text \<open>\<^verbatim>\<open>xs.splice(i, 1)\<close>: the array without its element at \<open>i\<close>.\<close>

definition splice1 :: "'a list \<Rightarrow> nat \<Rightarrow> 'a list" where
  "splice1 xs i = take i xs @ drop (Suc i) xs"

text \<open>\<^verbatim>\<open>!configuration.confirmation\<close>\<close>

definition noConfirmation :: "provider \<Rightarrow> bool" where
  "noConfirmation s = (confirmation (configuration s) \<noteq> Some True)"

text \<open>
  \<^verbatim>\<open>selectionHandler(date)\<close>, exposed as \<^verbatim>\<open>onSelection\<close>. In multi mode the handler
  spreads the selection into a new array, which throws a \<^verbatim>\<open>TypeError\<close> on anything but
  an array. Where the handler calls \<^verbatim>\<open>saveValue\<close> it passes the selection it has just
  set.
\<close>

definition startRange :: "jsdate \<Rightarrow> provider \<Rightarrow> provider" where
  "startRange date s =
     s\<lparr>hoverRange := Some (FromTo date (Some date)),
       selection := Some (SRange (FromTo date None))\<rparr>"

definition closeRange :: "jsdate \<Rightarrow> rangeSelection \<Rightarrow> rangeSelection" where
  "closeRange date r =
     (if isBefore date (rangeFrom r) then FromTo date (Some (rangeFrom r))
      else FromTo (rangeFrom r) (Some date))"

definition selectionHandler :: "jsdate \<Rightarrow> provider \<Rightarrow> error + provider" where
  "selectionHandler date s =
     (if selectionVariant (configuration s) = Some ''multi'' then
        (case selection s of
           Some (SArray selections) \<Rightarrow>
             (case findIndex (\<lambda>x. isEqual x date) selections of
                Some existingIndex \<Rightarrow>
                  Inr (s\<lparr>selection :=
                    Some (SArray (sortDates (splice1 selections existingIndex)))\<rparr>)
              | None \<Rightarrow>
                  Inr (s\<lparr>selection := Some (SArray (sortDates (selections @ [date])))\<rparr>))
         | _ \<Rightarrow> Inl TypeError)
      else if selectionVariant (configuration s) = Some ''range'' then
        (case selection s of
           Some (SRange r) \<Rightarrow>
             if rangeTo r = None then
               (let updatedSelection = SRange (closeRange date r);
                    s' = s\<lparr>selection := Some updatedSelection, hoverRange := None\<rparr>
                in Inr (if noConfirmation s then saveValue (Some updatedSelection) s' else s'))
             else Inr (startRange date s)
         | _ \<Rightarrow> Inr (startRange date s))
      else
        (let s' = s\<lparr>selection := Some (SDate date)\<rparr>
         in Inr (if noConfirmation s then saveValue (Some (SDate date)) s' else s')))"

text \<open>\<^verbatim>\<open>focusHnadler(date)\<close>, exposed as \<^verbatim>\<open>onDayFocus\<close>.\<close>

definition focusHnadler :: "jsdate \<Rightarrow> provider \<Rightarrow> provider" where
  "focusHnadler date s =
     (case selection s of
        Some (SRange r) \<Rightarrow>
          if selectionVariant (configuration s) = Some ''range'' \<and> hoverRange s \<noteq> None
          then s\<lparr>hoverRange := Some (closeRange date r)\<rparr>
          else s
      | _ \<Rightarrow> s)"

text \<open>
  \<^verbatim>\<open>blurHnadler(date)\<close>, exposed as \<^verbatim>\<open>onDayBlur\<close>: its only statement is commented
  out.
\<close>

definition blurHnadler :: "jsdate \<Rightarrow> provider \<Rightarrow> provider" where
  "blurHnadler date s = s"

subsection \<open>Events\<close>

datatype event =
    OnSelection jsdate
  | OnDayFocus jsdate
  | OnDayBlur jsdate
  | GoToMonth jsdate
  | NextMonth
  | PreviousMonth
  | SaveValue "selection option"
  | RevertValue

fun step :: "provider \<Rightarrow> event \<Rightarrow> error + provider" where
  "step s (OnSelection d) = selectionHandler d s"
| "step s (OnDayFocus d) = Inr (focusHnadler d s)"
| "step s (OnDayBlur d) = Inr (blurHnadler d s)"
| "step s (GoToMonth d) = Inr (goToMonth d s)"
| "step s NextMonth = Inr (nextMonth s)"
| "step s PreviousMonth = Inr (previousMonth s)"
| "step s (SaveValue u) = Inr (saveValue u s)"
| "step s RevertValue = Inr (revertValue s)"

text \<open>A sequence of events; the first handler that throws ends it.\<close>

fun run :: "provider \<Rightarrow> event list \<Rightarrow> error + provider" where
  "run s [] = Inr s"
| "run s (e # es) = (case step s e of Inl err \<Rightarrow> Inl err | Inr s' \<Rightarrow> run s' es)"

section \<open>The formatted date\<close>

text \<open>The template that \<^verbatim>\<open>getFormattedDate\<close> picks; an empty \<^verbatim>\<open>dateFormat\<close> is falsy.\<close>

definition template :: "DatePickerConfiguration \<Rightarrow> string" where
  "template c =
     (case dateFormat c of
        None \<Rightarrow> ''MMM d''
      | Some f \<Rightarrow>
          if f = [] then ''MMM d''
          else if f = ''short'' then ''MMM d''
          else if f = ''long'' then ''MMM d, yyyy''
          else f)"

text \<open>\<^verbatim>\<open>xs.join(sep)\<close>\<close>

fun join :: "string \<Rightarrow> string list \<Rightarrow> string" where
  "join sep [] = []"
| "join sep [x] = x"
| "join sep (x # y # ys) = x @ sep @ join sep (y # ys)"

text \<open>\<^verbatim>\<open>xs.map(f)\<close> for an \<open>f\<close> that may throw: the first throw ends the map.\<close>

fun mapE :: "('a \<Rightarrow> error + 'b) \<Rightarrow> 'a list \<Rightarrow> error + 'b list" where
  "mapE f [] = Inr []"
| "mapE f (x # xs) =
     (case f x of
        Inl e \<Rightarrow> Inl e
      | Inr y \<Rightarrow> (case mapE f xs of Inl e \<Rightarrow> Inl e | Inr ys \<Rightarrow> Inr (y # ys)))"

text \<open>A number in decimal, as a template literal prints it.\<close>

fun showNat :: "nat \<Rightarrow> string" where
  "showNat n =
     (if n < 10 then [''0123456789'' ! n]
      else showNat (n div 10) @ [''0123456789'' ! (n mod 10)])"

declare showNat.simps [simp del]

text \<open>
  \<^verbatim>\<open>getFormattedDate\<close>. The parameter \<open>format\<close> is \<^verbatim>\<open>format\<close> of date-fns, applied to a
  date or to \<^verbatim>\<open>undefined\<close> (\<open>None\<close>) and a template; it may throw. The result is a string,
  or \<^verbatim>\<open>undefined\<close> when the selection is empty and the configuration has no placeholder.
\<close>

definition formatOrBlank ::
  "(jsdate option \<Rightarrow> string \<Rightarrow> error + string) \<Rightarrow> string \<Rightarrow> jsdate option \<Rightarrow> error + string" where
  "formatOrBlank format t date =
     (case date of None \<Rightarrow> Inr [] | Some d \<Rightarrow> format (Some d) t)"

definition joined :: "string \<Rightarrow> error + string list \<Rightarrow> error + string option" where
  "joined sep r = (case r of Inl e \<Rightarrow> Inl e | Inr xs \<Rightarrow> Inr (Some (join sep xs)))"

definition getFormattedDate ::
  "(jsdate option \<Rightarrow> string \<Rightarrow> error + string) \<Rightarrow> provider \<Rightarrow> error + string option" where
  "getFormattedDate format s =
     (case selection s of
        None \<Rightarrow> Inr (placeholder (configuration s))
      | Some sel \<Rightarrow>
          let t = template (configuration s) in
          if selectionVariant (configuration s) = Some ''single'' then
            (case sel of
               SDate d \<Rightarrow> map_sum id Some (format (Some d) t)
             | SArray ds \<Rightarrow> map_sum id Some (format (index ds 0) t)
             | SRange r \<Rightarrow> map_sum id Some (format (Some (rangeFrom r)) t)
             | SOther \<Rightarrow> Inr (Some ''Invalid Selection''))
          else if selectionVariant (configuration s) = Some ''multi'' then
            (case sel of
               SArray ds \<Rightarrow>
                 if length ds > 3 then Inr (Some (showNat (length ds) @ '' Selected''))
                 else joined '', '' (mapE (\<lambda>d. format (Some d) t) ds)
             | SDate d \<Rightarrow> joined '', '' (mapE (\<lambda>d. format (Some d) t) [d])
             | SRange r \<Rightarrow>
                 joined '', '' (mapE (formatOrBlank format t) [rangeTo r, Some (rangeFrom r)])
             | SOther \<Rightarrow> Inr (Some ''Invalid Selection''))
          else if selectionVariant (configuration s) = Some ''range'' then
            (case sel of
               SRange r \<Rightarrow>
                 joined '' - '' (mapE (formatOrBlank format t) [Some (rangeFrom r), rangeTo r])
             | SDate d \<Rightarrow> joined '' - '' (mapE (formatOrBlank format t) [Some d, None])
             | SArray ds \<Rightarrow>
                 joined '' - '' (mapE (formatOrBlank format t) [index ds 0, index ds 1])
             | SOther \<Rightarrow> Inr (Some ''Invalid Selection''))
          else Inr (Some ''Invalid Configuration''))"

subsection \<open>The two built-in templates\<close>

text \<open>
  \<^verbatim>\<open>format\<close> of date-fns on the templates \<^verbatim>\<open>MMM d\<close> and \<^verbatim>\<open>MMM d, yyyy\<close> (English month
  names, UTC), used where a theorem evaluates the formatter on an example. It throws a
  \<^verbatim>\<open>RangeError\<close> on \<^verbatim>\<open>undefined\<close> and on an invalid date, as date-fns does. No other
  template is modelled: the function answers them with the same error.
\<close>

definition monthNames :: "string list" where
  "monthNames =
     [''Jan'', ''Feb'', ''Mar'', ''Apr'', ''May'', ''Jun'',
      ''Jul'', ''Aug'', ''Sep'', ''Oct'', ''Nov'', ''Dec'']"

definition pad4 :: "string \<Rightarrow> string" where
  "pad4 x = replicate (4 - length x) (CHR ''0'') @ x"

definition formatEnUS :: "jsdate option \<Rightarrow> string \<Rightarrow> error + string" where
  "formatEnUS date t =
     (case date of
        None \<Rightarrow> Inl RangeError
      | Some InvalidDate \<Rightarrow> Inl RangeError
      | Some (Date ms) \<Rightarrow>
          (case civilFromDays (ms div msPerDay) of
             (y, m, d) \<Rightarrow>
               let monthDay = monthNames ! nat (m - 1) @ '' '' @ showNat (nat d);
                   year = pad4 (showNat (nat (if y > 0 then y else 1 - y)))
               in if t = ''MMM d'' then Inr monthDay
                  else if t = ''MMM d, yyyy'' then Inr (monthDay @ '', '' @ year)
                  else Inl RangeError))"

section \<open>The day query\<close>

text \<open>
  \<^verbatim>\<open>useDatePicker(date?)\<close> on the provider's context: the flags \<^verbatim>\<open>blocked\<close> and
  \<^verbatim>\<open>disabled\<close> it returns. \<^verbatim>\<open>blocked\<close> is declared without a value, so it is
  \<^verbatim>\<open>undefined\<close> (\<open>None\<close>) unless a date is given and the configuration has blocked
  dates.
\<close>

definition blocked :: "provider \<Rightarrow> jsdate option \<Rightarrow> bool option" where
  "blocked v date =
     (case date of
        None \<Rightarrow> None
      | Some d \<Rightarrow>
          (case blockedDates (configuration v) of
             None \<Rightarrow> None
           | Some bs \<Rightarrow> Some (find (\<lambda>b. isEqual b d) bs \<noteq> None)))"

definition disabled :: "provider \<Rightarrow> jsdate option \<Rightarrow> bool" where
  "disabled v date =
     (case date of
        None \<Rightarrow> False
      | Some d \<Rightarrow>
          (case minDate (configuration v) of None \<Rightarrow> False | Some lo \<Rightarrow> isBefore d lo)
          \<or> (case maxDate (configuration v) of None \<Rightarrow> False | Some hi \<Rightarrow> isAfter d hi))"

section \<open>Properties of selections and of the provider\<close>

text \<open>
  The predicates below are not part of the program: they state the properties that the
  theorems are about.
\<close>

text \<open>Every date of a selection is a valid date.\<close>

fun validSelection :: "selection \<Rightarrow> bool" where
  "validSelection (SDate d) = isValid d"
| "validSelection (SArray ds) = list_all isValid ds"
| "validSelection (SRange r) =
     (isValid (rangeFrom r) \<and> (case rangeTo r of None \<Rightarrow> True | Some t \<Rightarrow> isValid t))"
| "validSelection SOther = True"

definition validDates :: "selection option \<Rightarrow> bool" where
  "validDates v = (case v of None \<Rightarrow> True | Some sel \<Rightarrow> validSelection sel)"

text \<open>
  The time values of the valid dates of the year 100 and later: from the first
  millisecond of 1 January 100 to the largest time value of a date. A date, and a
  selection, of that range.
\<close>

definition fromYear100 :: "int \<Rightarrow> bool" where
  "fromYear100 t = (- 59011459200000 \<le> t \<and> t \<le> 8640000000000000)"




fun sameDay :: "jsdate \<Rightarrow> jsdate \<Rightarrow> bool" where
  "sameDay (Date a) (Date b) = (startOfDay a = startOfDay b)"
| "sameDay _ _ = False"

fun atStartOfDay :: "jsdate \<Rightarrow> bool" where
  "atStartOfDay (Date t) = (startOfDay t = t)"
| "atStartOfDay InvalidDate = False"







text \<open>The selection is an open range: it awaits its second endpoint.\<close>

definition pending :: "provider \<Rightarrow> bool" where
  "pending s = (case selection s of Some (SRange r) \<Rightarrow> rangeTo r = None | _ \<Rightarrow> False)"

text \<open>What choosing \<open>d\<close> makes of the array \<open>xs\<close> in multi mode, for a valid \<open>d\<close>.\<close>

definition toggle :: "jsdate list \<Rightarrow> jsdate \<Rightarrow> jsdate list" where
  "toggle xs d = (if d \<in> set xs then sortDates (remove1 d xs) else sortDates (xs @ [d]))"

subsection \<open>Example providers\<close>

text \<open>
  A mounted provider with a \<^verbatim>\<open>closePicker\<close> callback, constructed at the epoch from a
  configuration and a value; and the configuration that sets the selection variant
  only.
\<close>

definition picker :: "DatePickerConfiguration \<Rightarrow> selection option \<Rightarrow> provider" where
  "picker c v =
     mounted (Date 0) \<lparr>closePickerProp = True, configurationProp = Some c, valueProp = v\<rparr>"

definition variantOnly :: "string \<Rightarrow> DatePickerConfiguration" where
  "variantOnly m = emptyConfiguration\<lparr>selectionVariant := Some m\<rparr>"

text \<open>A picker of a variant, mounted on no value, whose selection has been set.\<close>

definition holding :: "string \<Rightarrow> selection \<Rightarrow> provider" where
  "holding m sel = (picker (variantOnly m) None)\<lparr>selection := Some sel\<rparr>"

section \<open>Sorting valid dates\<close>

lemma mset_sortInsert: "mset (sortInsert x ys) = add_mset x (mset ys)"
  by (induction ys) simp_all

lemma mset_sortDates: "mset (sortDates xs) = mset xs"
  by (induction xs) (simp_all add: mset_sortInsert)

lemma sortInsert_Date: "sortInsert (Date t) (map Date ts) = map Date (insort t ts)"
  by (induction ts) (simp_all add: sortCompare_def compareFn_def)

lemma sortDates_Date: "sortDates (map Date ts) = map Date (sort ts)"
  by (induction ts) (simp_all add: sortInsert_Date sort_key_def)

lemma map_normalizeDate_Date: "map normalizeDate (map Date ts) = map Date (map startOfDay ts)"
  by (induction ts) simp_all

lemma sortDates_normalizeDate:
  "sortDates (map normalizeDate (map Date ts)) = map Date (sort (map startOfDay ts))"
  unfolding map_normalizeDate_Date sortDates_Date by (rule refl)

section \<open>Parsing an array in multi mode\<close>

text \<open>
  C1 (as amended). Parsing an array of valid dates of the year 100 and later in multi
  mode gives the array of their calendar days sorted ascending. Nothing is removed: the
  result holds every element of the input, a calendar day as many times as the input
  names it.
\<close>

theorem parse_multi_array_sorted_days:
  assumes "list_all fromYear100 ts"
  shows "parseSelection (Some (SArray (map Date ts))) (Some ''multi'')
           = Some (SArray (map Date (sort (map startOfDay ts))))
         \<and> sorted (sort (map startOfDay ts))
         \<and> mset (sort (map startOfDay ts)) = mset (map startOfDay ts)
         \<and> length (sort (map startOfDay ts)) = length ts"
  by (simp add: parseSelection_def sortDates_normalizeDate del: map_map)

text \<open>
  C1 (as amended), at the input of the specification's example: 3 January, 1 January
  and 1 January 2024.
\<close>

theorem parse_multi_array_sorted_days_witness:
  "list_all fromYear100 [1704240000000, 1704067200000, 1704067200000]
   \<and> parseSelection
       (Some (SArray (map Date [1704240000000, 1704067200000, 1704067200000])))
       (Some ''multi'')
     = Some (SArray (map Date [1704067200000, 1704067200000, 1704240000000]))"
proof -
  have bound: "list_all fromYear100 [1704240000000, 1704067200000, 1704067200000]"
    by (simp add: fromYear100_def)
  have days: "sort (map startOfDay [1704240000000, 1704067200000, 1704067200000])
      = [1704067200000, 1704067200000, 1704240000000]"
    by (simp add: startOfDay_def msPerDay_def)
  from parse_multi_array_sorted_days [OF bound] bound show ?thesis
    by (simp only: days simp_thms)
qed

text \<open>
  The claim as the specification states it fails on its own example: 2024-01-03,
  2024-01-01, 2024-01-01 parses to three dates, the first of January twice.
\<close>

theorem parse_multi_array_keeps_duplicates:
  "parseSelection
     (Some (SArray [Date 1704240000000, Date 1704067200000, Date 1704067200000]))
     (Some ''multi'')
     = Some (SArray [Date 1704067200000, Date 1704067200000, Date 1704240000000])
   \<and> parseSelection
     (Some (SArray [Date 1704240000000, Date 1704067200000, Date 1704067200000]))
     (Some ''multi'')
     \<noteq> Some (SArray [Date 1704067200000, Date 1704240000000])"
  by (simp add: parseSelection_def sortCompare_def compareFn_def startOfDay_def msPerDay_def)

section \<open>Evaluating the example providers\<close>

lemmas picker_eval =
  picker_def variantOnly_def mounted_def DatePickerProvider_def configurationEffect_def
  deepmerge_def defaultConfiguration_def emptyConfiguration_def override_def
  parseSelection_def startOfDay_def msPerDay_def sortCompare_def compareFn_def

lemma picker_variant [simp]:
  "selectionVariant (configuration (picker (variantOnly m) v)) = Some m"
  by (simp add: picker_eval)

lemma picker_template: "template (configuration (picker (variantOnly m) v)) = ''MMM d''"
  by (simp add: picker_eval template_def)

lemma holding_variant [simp]: "selectionVariant (configuration (holding m sel)) = Some m"
  by (simp add: holding_def)

lemma holding_selection [simp]: "selection (holding m sel) = Some sel"
  by (simp add: holding_def)

lemma holding_template [simp]: "template (configuration (holding m sel)) = ''MMM d''"
  by (simp add: holding_def picker_template)

lemma formatEnUS_Mar5: "formatEnUS (Some (Date 1709596800000)) ''MMM d'' = Inr ''Mar 5''"
  by code_simp

lemma formatEnUS_Mar10: "formatEnUS (Some (Date 1710028800000)) ''MMM d'' = Inr ''Mar 10''"
  by code_simp

section \<open>Calendar days\<close>

lemma startOfDay_eq: "startOfDay t = (t div msPerDay) * msPerDay"
  by (simp add: startOfDay_def minus_mod_eq_div_mult)

lemma startOfDay_idem: "startOfDay (startOfDay t) = startOfDay t"
  by (simp add: startOfDay_eq msPerDay_def)


lemma normalizeDate_idem: "normalizeDate (normalizeDate d) = normalizeDate d"
  by (cases d) (simp_all add: startOfDay_idem)

lemma normalizeDateU_idem: "normalizeDate (normalizeDateU x) = normalizeDateU x"
  by (cases x) (simp_all add: normalizeDate_idem)

lemma valid_dates_are_times: "list_all isValid ds \<Longrightarrow> \<exists>ts. ds = map Date ts"
proof (induction ds)
  case Nil
  then show ?case by simp
next
  case (Cons d ds)
  then obtain ts where "ds = map Date ts" by auto
  moreover from Cons.prems obtain t where "d = Date t" by (cases d) auto
  ultimately have "d # ds = map Date (t # ts)" by simp
  then show ?case by (rule exI)
qed

lemma map_startOfDay_sort_idem:
  "map startOfDay (sort (map startOfDay ts)) = sort (map startOfDay ts)"
proof -
  have "\<forall>x \<in> set (sort (map startOfDay ts)). startOfDay x = x"
    by (auto simp: startOfDay_idem)
  then show ?thesis by (intro map_idI) blast
qed

lemma parse_days_idem:
  "sortDates (map normalizeDate (sortDates (map normalizeDate (map Date ts))))
     = sortDates (map normalizeDate (map Date ts))"
  by (simp only: sortDates_normalizeDate map_startOfDay_sort_idem)
     (simp add: sortDates_Date sorted_sort_id)

section \<open>The parser is idempotent\<close>

lemma parse_idem_multi:
  assumes "validSelection sel"
  shows "parseSelection (parseSelection (Some sel) (Some ''multi'')) (Some ''multi'')
           = parseSelection (Some sel) (Some ''multi'')"
proof (cases sel)
  case (SDate d)
  then show ?thesis by (simp add: parseSelection_def normalizeDate_idem)
next
  case (SArray ds)
  with assms obtain ts where "ds = map Date ts"
    using valid_dates_are_times by auto
  with SArray show ?thesis
    by (simp add: parseSelection_def parse_days_idem del: map_map)
next
  case (SRange r)
  with assms obtain a where a: "rangeFrom r = Date a" by (cases "rangeFrom r") auto
  show ?thesis
  proof (cases "rangeTo r")
    case None
    with SRange show ?thesis by (simp add: parseSelection_def normalizeDate_idem)
  next
    case (Some t)
    with assms SRange obtain b where b: "t = Date b" by (cases t) auto
    have "sortDates (map normalizeDate (sortDates (map normalizeDate (map Date [a, b]))))
            = sortDates (map normalizeDate (map Date [a, b]))"
      by (rule parse_days_idem)
    with SRange Some a b show ?thesis by (simp add: parseSelection_def)
  qed
next
  case SOther
  then show ?thesis by (simp add: parseSelection_def)
qed

lemma parse_idem_range:
  "parseSelection (parseSelection (Some sel) (Some ''range'')) (Some ''range'')
     = parseSelection (Some sel) (Some ''range'')"
  by (cases sel)
     (auto simp: parseSelection_def normalizeDate_idem normalizeDateU_idem split: option.splits)

lemma parse_idem_single:
  assumes "m \<noteq> Some ''multi''" "m \<noteq> Some ''range''"
  shows "parseSelection (parseSelection (Some sel) m) m = parseSelection (Some sel) m"
  using assms
  by (cases sel)
     (auto simp: parseSelection_def normalizeDate_idem normalizeDateU_idem split: option.splits)

text \<open>
  C9. Parsing is idempotent: for every input \<open>v\<close> of an accepted shape (a date, an array
  of dates, a from/to pair, or null) whose dates are valid, and every selection variant
  \<open>m\<close> (the three modes, and any other value, which parses as single mode), parsing
  the parsed value again changes nothing.
\<close>

theorem parse_idempotent:
  assumes "validDates v"
  shows "parseSelection (parseSelection v m) m = parseSelection v m"
proof (cases v)
  case None
  then show ?thesis by (simp add: parseSelection_def)
next
  case (Some sel)
  with assms have valid: "validSelection sel" by (simp add: validDates_def)
  consider "m = Some ''multi''" | "m = Some ''range''"
    | "m \<noteq> Some ''multi''" "m \<noteq> Some ''range''" by blast
  then show ?thesis
  proof cases
    case 1
    with Some valid show ?thesis by (simp add: parse_idem_multi)
  next
    case 2
    with Some show ?thesis by (simp add: parse_idem_range)
  next
    case 3
    with Some show ?thesis by (simp add: parse_idem_single)
  qed
qed

text \<open>
  C9, at an input: three dates with times of day, out of order and two of them on the
  same day. Parsing the parsed array in multi mode gives the three sorted calendar days
  of the first parse.
\<close>

theorem parse_idempotent_witness:
  "validDates (Some (SArray [Date 1704240000123, Date 1704067200000, Date 1704067200456]))
   \<and> parseSelection
        (parseSelection
           (Some (SArray [Date 1704240000123, Date 1704067200000, Date 1704067200456]))
           (Some ''multi''))
        (Some ''multi'')
     = Some (SArray [Date 1704067200000, Date 1704067200000, Date 1704240000000])"
proof -
  have valid:
    "validDates (Some (SArray [Date 1704240000123, Date 1704067200000, Date 1704067200456]))"
    by (simp add: validDates_def)
  have "parseSelection
          (Some (SArray [Date 1704240000123, Date 1704067200000, Date 1704067200456]))
          (Some ''multi'')
        = Some (SArray [Date 1704067200000, Date 1704067200000, Date 1704240000000])"
    by (simp add: parseSelection_def sortCompare_def compareFn_def startOfDay_def msPerDay_def)
  with valid parse_idempotent [OF valid, of "Some ''multi''"] show ?thesis by simp
qed

section \<open>The range invariant\<close>













section \<open>Closing a range\<close>

lemma selectionHandler_pending:
  assumes "selectionVariant (configuration s) = Some ''range''"
    and "selection s = Some (SRange r)" and "rangeTo r = None"
  shows "selectionHandler d s =
           Inr (let s' = s\<lparr>selection := Some (SRange (closeRange d r)), hoverRange := None\<rparr>
                in if noConfirmation s then saveValue (Some (SRange (closeRange d r))) s' else s')"
  using assms by (simp add: selectionHandler_def Let_def)

lemma selectionHandler_idle:
  assumes "selectionVariant (configuration s) = Some ''range''" and "\<not> pending s"
  shows "selectionHandler d s = Inr (startRange d s)"
  using assms
  by (auto simp: selectionHandler_def pending_def split: option.splits selection.splits)

lemma closeRange_commute:
  "closeRange (Date b) (FromTo (Date a) None) = closeRange (Date a) (FromTo (Date b) None)"
  by (auto simp: closeRange_def)

lemma closeRange_Date:
  "closeRange (Date b) (FromTo (Date a) None)
     = (if b < a then FromTo (Date b) (Some (Date a)) else FromTo (Date a) (Some (Date b)))"
  by (simp add: closeRange_def)

text \<open>
  C6. In range mode, for valid dates \<open>A\<close> and \<open>B\<close>: choosing \<open>B\<close> on the open range
  from \<open>A\<close> succeeds, clears the hover range and sets the selection to the range from
  \<open>B\<close> to \<open>A\<close> when \<open>B\<close> is before \<open>A\<close>, and from \<open>A\<close> to \<open>B\<close> otherwise. From a
  provider that is not awaiting a second endpoint, choosing \<open>A\<close> then \<open>B\<close> and
  choosing \<open>B\<close> then \<open>A\<close> both succeed and end in one and the same provider, whose
  selection is that ordered range and whose hover range is cleared. In both cases the
  range is committed as the previous selection when the configuration asks for no
  confirmation, and the previous selection is untouched when it does.
\<close>

theorem range_closing_orders_endpoints:
  assumes "selectionVariant (configuration s) = Some ''range''"
  shows "(selection s = Some (SRange (FromTo (Date a) None)) \<longrightarrow>
            (\<exists>s'. selectionHandler (Date b) s = Inr s'
               \<and> hoverRange s' = None
               \<and> selection s' =
                   Some (SRange (if b < a then FromTo (Date b) (Some (Date a))
                                 else FromTo (Date a) (Some (Date b))))
               \<and> previousSelection s' =
                   (if noConfirmation s then selection s' else previousSelection s)))
         \<and> (\<not> pending s \<longrightarrow>
              (\<exists>s'. run s [OnSelection (Date a), OnSelection (Date b)] = Inr s'
                 \<and> run s [OnSelection (Date b), OnSelection (Date a)] = Inr s'
                 \<and> hoverRange s' = None
                 \<and> selection s' =
                     Some (SRange (if b < a then FromTo (Date b) (Some (Date a))
                                   else FromTo (Date a) (Some (Date b))))
                 \<and> previousSelection s' =
                     (if noConfirmation s then selection s' else previousSelection s)))"
proof (intro conjI impI)
  assume open_range: "selection s = Some (SRange (FromTo (Date a) None))"
  show "\<exists>s'. selectionHandler (Date b) s = Inr s'
               \<and> hoverRange s' = None
               \<and> selection s' =
                   Some (SRange (if b < a then FromTo (Date b) (Some (Date a))
                                 else FromTo (Date a) (Some (Date b))))
               \<and> previousSelection s' =
                   (if noConfirmation s then selection s' else previousSelection s)"
    using assms open_range
    by (simp add: selectionHandler_pending [where r = "FromTo (Date a) None"]
        closeRange_def saveValue_def Let_def)
next
  assume idle: "\<not> pending s"
  let ?r = "if b < a then FromTo (Date b) (Some (Date a)) else FromTo (Date a) (Some (Date b))"
  let ?closed = "s\<lparr>hoverRange := None, selection := Some (SRange ?r)\<rparr>"
  let ?end = "if noConfirmation s then saveValue (Some (SRange ?r)) ?closed else ?closed"
  have first: "selectionHandler (Date x) s = Inr (startRange (Date x) s)" for x
    using assms idle by (simp add: selectionHandler_idle)
  have second: "selectionHandler (Date y) (startRange (Date x) s) =
      Inr (let r = closeRange (Date y) (FromTo (Date x) None);
               s' = s\<lparr>hoverRange := None, selection := Some (SRange r)\<rparr>
           in if noConfirmation s then saveValue (Some (SRange r)) s' else s')" for x y
    using assms
    by (simp add: selectionHandler_pending [where r = "FromTo (Date x) None"]
        startRange_def Let_def noConfirmation_def saveValue_def)
  have ab: "run s [OnSelection (Date a), OnSelection (Date b)] = Inr ?end"
    by (simp add: first second closeRange_Date Let_def)
  have ba: "run s [OnSelection (Date b), OnSelection (Date a)] = Inr ?end"
    by (simp add: first second closeRange_commute [of a b] closeRange_Date Let_def)
  have "hoverRange ?end = None" "selection ?end = Some (SRange ?r)"
    "previousSelection ?end = (if noConfirmation s then selection ?end else previousSelection s)"
    by (simp_all add: saveValue_def)
  with ab ba show "\<exists>s'. run s [OnSelection (Date a), OnSelection (Date b)] = Inr s'
                 \<and> run s [OnSelection (Date b), OnSelection (Date a)] = Inr s'
                 \<and> hoverRange s' = None
                 \<and> selection s' =
                     Some (SRange (if b < a then FromTo (Date b) (Some (Date a))
                                   else FromTo (Date a) (Some (Date b))))
                 \<and> previousSelection s' =
                     (if noConfirmation s then selection s' else previousSelection s)"
    by blast
qed

text \<open>
  C6, at two inputs: a range picker mounted on 10 March 2024, whose selection is the
  open range from that day, in which 5 March is chosen; and a range picker mounted on
  no value, in which the two days are chosen in either order. The pickers ask for no
  confirmation, so the range from 5 to 10 March is committed.
\<close>

theorem range_closing_orders_endpoints_witness:
  "selectionVariant (configuration (picker (variantOnly ''range'') (Some (SDate (Date 1710028800000)))))
     = Some ''range''
   \<and> selection (picker (variantOnly ''range'') (Some (SDate (Date 1710028800000))))
     = Some (SRange (FromTo (Date 1710028800000) None))
   \<and> (\<exists>s'. selectionHandler (Date 1709596800000)
              (picker (variantOnly ''range'') (Some (SDate (Date 1710028800000)))) = Inr s'
          \<and> hoverRange s' = None
          \<and> selection s' = Some (SRange (FromTo (Date 1709596800000) (Some (Date 1710028800000))))
          \<and> previousSelection s'
              = Some (SRange (FromTo (Date 1709596800000) (Some (Date 1710028800000)))))
   \<and> \<not> pending (picker (variantOnly ''range'') None)
   \<and> (\<exists>s'. run (picker (variantOnly ''range'') None)
               [OnSelection (Date 1710028800000), OnSelection (Date 1709596800000)] = Inr s'
          \<and> run (picker (variantOnly ''range'') None)
               [OnSelection (Date 1709596800000), OnSelection (Date 1710028800000)] = Inr s'
          \<and> hoverRange s' = None
          \<and> selection s' = Some (SRange (FromTo (Date 1709596800000) (Some (Date 1710028800000))))
          \<and> previousSelection s'
              = Some (SRange (FromTo (Date 1709596800000) (Some (Date 1710028800000)))))"
proof -
  let ?open = "picker (variantOnly ''range'') (Some (SDate (Date 1710028800000)))"
  let ?idle = "picker (variantOnly ''range'') None"
  have o1: "selectionVariant (configuration ?open) = Some ''range''" by simp
  have o2: "selection ?open = Some (SRange (FromTo (Date 1710028800000) None))"
    by (simp add: picker_eval)
  have o3: "noConfirmation ?open" by (simp add: noConfirmation_def picker_eval)
  have i1: "selectionVariant (configuration ?idle) = Some ''range''" by simp
  have i2: "\<not> pending ?idle" by (simp add: pending_def picker_eval)
  have i3: "noConfirmation ?idle" by (simp add: noConfirmation_def picker_eval)
  from range_closing_orders_endpoints [OF o1, of 1710028800000 1709596800000] o2 o3
  have "\<exists>s'. selectionHandler (Date 1709596800000) ?open = Inr s'
          \<and> hoverRange s' = None
          \<and> selection s' = Some (SRange (FromTo (Date 1709596800000) (Some (Date 1710028800000))))
          \<and> previousSelection s'
              = Some (SRange (FromTo (Date 1709596800000) (Some (Date 1710028800000))))"
    by auto
  moreover from range_closing_orders_endpoints [OF i1, of 1710028800000 1709596800000] i2 i3
  have "\<exists>s'. run ?idle [OnSelection (Date 1710028800000), OnSelection (Date 1709596800000)] = Inr s'
          \<and> run ?idle [OnSelection (Date 1709596800000), OnSelection (Date 1710028800000)] = Inr s'
          \<and> hoverRange s' = None
          \<and> selection s' = Some (SRange (FromTo (Date 1709596800000) (Some (Date 1710028800000))))
          \<and> previousSelection s'
              = Some (SRange (FromTo (Date 1709596800000) (Some (Date 1710028800000))))"
    by auto
  ultimately show ?thesis using o1 o2 i2 by blast
qed

section \<open>Commit and revert\<close>

lemma selectionHandler_saved:
  "selectionHandler d s = Inr s' \<Longrightarrow>
     saved s \<le> saved s' \<and> closePicker s' = closePicker s
     \<and> (saved s' = saved s \<longrightarrow> previousSelection s' = previousSelection s \<and> closed s' = closed s)"
  by (auto simp: selectionHandler_def saveValue_def startRange_def Let_def
      split: if_splits option.splits selection.splits)

lemma step_saved:
  "step s e = Inr s' \<Longrightarrow>
     saved s \<le> saved s'
     \<and> (saved s' = saved s \<longrightarrow> previousSelection s' = previousSelection s \<and> closed s' = closed s)"
proof (cases e)
  case (OnSelection d)
  then show "step s e = Inr s' \<Longrightarrow> ?thesis" using selectionHandler_saved [of d s s'] by simp
qed (auto simp: focusHnadler_def blurHnadler_def goToMonth_def nextMonth_def previousMonth_def
      saveValue_def revertValue_def split: option.splits selection.splits)

lemma run_saved:
  "run s evs = Inr s' \<Longrightarrow>
     saved s \<le> saved s'
     \<and> (saved s' = saved s \<longrightarrow> previousSelection s' = previousSelection s \<and> closed s' = closed s)"
proof (induction evs arbitrary: s)
  case Nil
  then show ?case by simp
next
  case (Cons e evs)
  then obtain s1 where s1: "step s e = Inr s1" "run s1 evs = Inr s'"
    by (auto split: sum.splits)
  from step_saved [OF s1(1)] Cons.IH [OF s1(2)] show ?case by auto
qed

text \<open>
  C7. After any sequence of events that runs without an error and in which
  \<^verbatim>\<open>saveValue\<close> is never called (the count of its calls is what it was), reverting
  sets the selection to the previous selection the provider had before the sequence;
  and reverting calls neither the close callback nor \<^verbatim>\<open>saveValue\<close>.
\<close>

theorem revert_restores_previous_selection:
  assumes "run s0 evs = Inr s" and "saved s = saved s0"
  shows "selection (revertValue s) = previousSelection s0
         \<and> closed (revertValue s) = closed s
         \<and> saved (revertValue s) = saved s"
  using run_saved [OF assms(1)] assms(2) by (simp add: revertValue_def)

text \<open>
  C7, at an input: a multi picker mounted on 1 January 2024, in which 3 January is
  added, 1 January removed and the next month shown. Reverting gives back the array
  that holds 1 January.
\<close>

theorem revert_restores_previous_selection_witness:
  "run (picker (variantOnly ''multi'') (Some (SArray [Date 1704067200000])))
       [OnSelection (Date 1704240000000), OnSelection (Date 1704067200000), NextMonth]
     = Inr ((picker (variantOnly ''multi'') (Some (SArray [Date 1704067200000])))
              \<lparr>selection := Some (SArray [Date 1704240000000]),
               currentViewingDate := Date 2678400000\<rparr>)
   \<and> selection (revertValue ((picker (variantOnly ''multi'') (Some (SArray [Date 1704067200000])))
              \<lparr>selection := Some (SArray [Date 1704240000000]),
               currentViewingDate := Date 2678400000\<rparr>))
      = Some (SArray [Date 1704067200000])"
proof -
  let ?init = "picker (variantOnly ''multi'') (Some (SArray [Date 1704067200000]))"
  let ?both = "?init\<lparr>selection := Some (SArray [Date 1704067200000, Date 1704240000000])\<rparr>"
  let ?third = "?init\<lparr>selection := Some (SArray [Date 1704240000000])\<rparr>"
  let ?final = "?init\<lparr>selection := Some (SArray [Date 1704240000000]),
               currentViewingDate := Date 2678400000\<rparr>"
  have sel: "selection ?init = Some (SArray [Date 1704067200000])"
    and prev: "previousSelection ?init = Some (SArray [Date 1704067200000])"
    and cv: "currentViewingDate ?init = Date 0"
    by (simp_all add: picker_eval)
  have am: "addMonths (Date 0) 1 = Date 2678400000"
    by code_simp
  have st1: "selectionHandler (Date 1704240000000) ?init = Inr ?both"
    by (simp add: selectionHandler_def sel sortCompare_def compareFn_def)
  have st2: "selectionHandler (Date 1704067200000) ?both = Inr ?third"
    by (simp add: selectionHandler_def splice1_def sortCompare_def compareFn_def)
  have st3: "nextMonth ?third = ?final"
    by (simp add: nextMonth_def cv am)
  have r: "run ?init [OnSelection (Date 1704240000000), OnSelection (Date 1704067200000), NextMonth]
     = Inr ?final"
    by (simp add: st1 st2 st3)
  have unchanged: "saved ?final = saved ?init" by simp
  have "selection (revertValue ?final) = previousSelection ?init"
    using revert_restores_previous_selection [OF r unchanged] by (rule conjunct1)
  then have "selection (revertValue ?final) = Some (SArray [Date 1704067200000])"
    using prev by (rule trans)
  with r show ?thesis by (rule conjI)
qed

text \<open>
  C10. Reverting changes the selection and nothing else: the hover range, the previous
  selection, the configuration and the month on view are what they were, as are the
  close callback and the counts of its calls and of the calls of \<^verbatim>\<open>saveValue\<close>.
\<close>

theorem revert_changes_selection_only:
  "revertValue s = s\<lparr>selection := previousSelection s\<rparr>
   \<and> hoverRange (revertValue s) = hoverRange s
   \<and> previousSelection (revertValue s) = previousSelection s
   \<and> configuration (revertValue s) = configuration s
   \<and> currentViewingDate (revertValue s) = currentViewingDate s
   \<and> closePicker (revertValue s) = closePicker s
   \<and> closed (revertValue s) = closed s
   \<and> saved (revertValue s) = saved s"
  by (simp add: revertValue_def)

section \<open>Toggling a date in multi mode\<close>

lemma isEqual_Date: "isEqual x (Date t) = (x = Date t)"
  by (cases x) auto

lemma findIndex_None_iff: "findIndex p xs = None \<longleftrightarrow> (\<forall>x \<in> set xs. \<not> p x)"
  by (induction xs) (auto split: option.splits)

lemma findIndex_splice1:
  "findIndex (\<lambda>x. x = d) xs = Some i \<Longrightarrow> splice1 xs i = remove1 d xs"
proof (induction xs arbitrary: i)
  case Nil
  then show ?case by simp
next
  case (Cons x xs)
  show ?case
  proof (cases "x = d")
    case True
    with Cons.prems show ?thesis by (simp add: splice1_def)
  next
    case False
    with Cons.prems obtain j where j: "findIndex (\<lambda>x. x = d) xs = Some j" "i = Suc j"
      by (auto split: option.splits)
    with Cons.IH [OF j(1)] False show ?thesis by (simp add: splice1_def)
  qed
qed

lemma selectionHandler_multi:
  assumes "selectionVariant (configuration s) = Some ''multi''"
    and "selection s = Some (SArray xs)"
  shows "selectionHandler (Date t) s = Inr (s\<lparr>selection := Some (SArray (toggle xs (Date t)))\<rparr>)"
proof (cases "findIndex (\<lambda>x. x = Date t) xs")
  case None
  then have "Date t \<notin> set xs" by (auto simp: findIndex_None_iff)
  with assms None show ?thesis
    by (simp add: selectionHandler_def isEqual_Date toggle_def)
next
  case (Some i)
  then have "Date t \<in> set xs"
    using findIndex_None_iff [of "\<lambda>x. x = Date t" xs] by auto
  with assms Some findIndex_splice1 [OF Some] show ?thesis
    by (simp add: selectionHandler_def isEqual_Date toggle_def)
qed

lemma set_sortDates: "set (sortDates xs) = set xs"
  using mset_sortDates [of xs] by (metis set_mset_mset)

lemma mset_toggle_twice:
  assumes "count (mset xs) d \<le> 1"
  shows "mset (toggle (toggle xs d) d) = mset xs"
proof (cases "d \<in> set xs")
  case True
  from assms have "count (mset (remove1 d xs)) d = 0" by simp
  then have "d \<notin> set (remove1 d xs)"
    by (metis count_eq_zero_iff set_mset_mset)
  with True show ?thesis
    by (simp add: toggle_def set_sortDates mset_sortDates)
next
  case False
  then show ?thesis
    by (simp add: toggle_def set_sortDates mset_sortDates)
qed

text \<open>
  C8 (as amended). In multi mode, for a valid date and a selection that holds that
  date at most once, choosing the date and choosing it again succeeds and leaves an
  array with the elements of the original one, each as often as before; so the set of
  selected calendar days is the original one. Nothing else in the provider changes.
\<close>

theorem toggle_twice_restores_selection:
  assumes "selectionVariant (configuration s) = Some ''multi''"
    and "selection s = Some (SArray xs)"
    and "count (mset xs) (Date t) \<le> 1"
  shows "\<exists>ys. run s [OnSelection (Date t), OnSelection (Date t)]
                 = Inr (s\<lparr>selection := Some (SArray ys)\<rparr>)
              \<and> mset ys = mset xs
              \<and> set (map normalizeDate ys) = set (map normalizeDate xs)"
proof -
  let ?ys = "toggle (toggle xs (Date t)) (Date t)"
  have "selectionHandler (Date t) s = Inr (s\<lparr>selection := Some (SArray (toggle xs (Date t)))\<rparr>)"
    using assms(1,2) by (rule selectionHandler_multi)
  moreover have "selectionHandler (Date t) (s\<lparr>selection := Some (SArray (toggle xs (Date t)))\<rparr>)
      = Inr (s\<lparr>selection := Some (SArray ?ys)\<rparr>)"
    using assms(1) by (simp add: selectionHandler_multi)
  ultimately have "run s [OnSelection (Date t), OnSelection (Date t)]
      = Inr (s\<lparr>selection := Some (SArray ?ys)\<rparr>)"
    by simp
  moreover have m: "mset ?ys = mset xs" using assms(3) by (rule mset_toggle_twice)
  moreover have "set (map normalizeDate ?ys) = set (map normalizeDate xs)"
    using m by (metis mset_map set_mset_mset)
  ultimately show ?thesis by blast
qed

text \<open>
  C8 (as amended), at an input: a multi picker mounted on 3 January, 1 January and
  3 January 2024, which holds 3 January twice and 1 January once, in which 1 January
  is chosen twice.
\<close>

theorem toggle_twice_restores_selection_witness:
  "selectionVariant (configuration (picker (variantOnly ''multi'')
       (Some (SArray [Date 1704240000000, Date 1704067200000, Date 1704240000000])))) = Some ''multi''
   \<and> selection (picker (variantOnly ''multi'')
       (Some (SArray [Date 1704240000000, Date 1704067200000, Date 1704240000000])))
       = Some (SArray [Date 1704067200000, Date 1704240000000, Date 1704240000000])
   \<and> count (mset [Date 1704067200000, Date 1704240000000, Date 1704240000000])
        (Date 1704067200000) \<le> 1
   \<and> (\<exists>ys. run (picker (variantOnly ''multi'')
                 (Some (SArray [Date 1704240000000, Date 1704067200000, Date 1704240000000])))
               [OnSelection (Date 1704067200000), OnSelection (Date 1704067200000)]
             = Inr ((picker (variantOnly ''multi'')
                 (Some (SArray [Date 1704240000000, Date 1704067200000, Date 1704240000000])))
                   \<lparr>selection := Some (SArray ys)\<rparr>)
          \<and> mset ys = mset [Date 1704067200000, Date 1704240000000, Date 1704240000000]
          \<and> set (map normalizeDate ys)
              = set (map normalizeDate
                  [Date 1704067200000, Date 1704240000000, Date 1704240000000]))"
proof -
  let ?v = "picker (variantOnly ''multi'')
      (Some (SArray [Date 1704240000000, Date 1704067200000, Date 1704240000000]))"
  have h1: "selectionVariant (configuration ?v) = Some ''multi''" by simp
  have h2: "selection ?v
      = Some (SArray [Date 1704067200000, Date 1704240000000, Date 1704240000000])"
    by (simp add: picker_eval)
  have h3: "count (mset [Date 1704067200000, Date 1704240000000, Date 1704240000000])
        (Date 1704067200000) \<le> 1"
    by simp
  from toggle_twice_restores_selection [OF h1 h2 h3] h1 h2 h3
  show ?thesis by blast
qed

text \<open>
  The claim as the specification states it fails on a selection the store can hold: a
  multi picker mounted on 1 January, 1 January and 3 January 2024 holds 1 January
  twice, and choosing 1 January twice removes it twice. What is left is 3 January
  alone, and 1 January is no longer a selected day.
\<close>

theorem toggle_twice_drops_duplicated_day:
  "selection (picker (variantOnly ''multi'')
       (Some (SArray [Date 1704067200000, Date 1704067200000, Date 1704240000000])))
     = Some (SArray [Date 1704067200000, Date 1704067200000, Date 1704240000000])
   \<and> run (picker (variantOnly ''multi'')
           (Some (SArray [Date 1704067200000, Date 1704067200000, Date 1704240000000])))
         [OnSelection (Date 1704067200000), OnSelection (Date 1704067200000)]
     = Inr ((picker (variantOnly ''multi'')
           (Some (SArray [Date 1704067200000, Date 1704067200000, Date 1704240000000])))
             \<lparr>selection := Some (SArray [Date 1704240000000])\<rparr>)
   \<and> set (map normalizeDate [Date 1704240000000])
       \<noteq> set (map normalizeDate [Date 1704067200000, Date 1704067200000, Date 1704240000000])"
proof -
  let ?v = "picker (variantOnly ''multi'')
       (Some (SArray [Date 1704067200000, Date 1704067200000, Date 1704240000000]))"
  have sel: "selection ?v
      = Some (SArray [Date 1704067200000, Date 1704067200000, Date 1704240000000])"
    by (simp add: picker_eval)
  have st1: "selectionHandler (Date 1704067200000) ?v
      = Inr (?v\<lparr>selection := Some (SArray [Date 1704067200000, Date 1704240000000])\<rparr>)"
    by (simp add: selectionHandler_def sel splice1_def sortCompare_def compareFn_def)
  have st2: "selectionHandler (Date 1704067200000)
        (?v\<lparr>selection := Some (SArray [Date 1704067200000, Date 1704240000000])\<rparr>)
      = Inr (?v\<lparr>selection := Some (SArray [Date 1704240000000])\<rparr>)"
    by (simp add: selectionHandler_def splice1_def sortCompare_def compareFn_def)
  have days: "set (map normalizeDate [Date 1704240000000])
       \<noteq> set (map normalizeDate [Date 1704067200000, Date 1704067200000, Date 1704240000000])"
    by (simp add: startOfDay_def msPerDay_def)
  from sel days show ?thesis by (simp add: st1 st2)
qed

text \<open>
  C3. In multi mode the handler fails on the empty selection: a multi picker mounted
  on no value holds no selection, and choosing 1 January 2024 in it throws a
  \<^verbatim>\<open>TypeError\<close> where the claim has the date inserted.
\<close>

theorem multi_choice_on_empty_selection_throws:
  "selection (picker (variantOnly ''multi'') None) = None
   \<and> selectionHandler (Date 1704067200000) (picker (variantOnly ''multi'') None) = Inl TypeError"
  by (simp add: selectionHandler_def) (simp add: picker_eval)

section \<open>Blocked days\<close>

lemma find_isEqual:
  "(find (\<lambda>b. isEqual b d) bs \<noteq> None) = (\<exists>t. d = Date t \<and> Date t \<in> set bs)"
proof (cases d)
  case (Date t)
  then show ?thesis by (auto simp: find_None_iff isEqual_Date)
next
  case InvalidDate
  have "isEqual b InvalidDate = False" for b by (cases b) simp_all
  with InvalidDate show ?thesis by (simp add: find_None_iff)
qed

lemma sameDay_at_start:
  "atStartOfDay b \<Longrightarrow> atStartOfDay d \<Longrightarrow> sameDay b d = (b = d)"
  by (cases b; cases d) auto

text \<open>
  C5 (as amended). For a configuration with blocked dates, the day query's blocked
  flag of a date is true if and only if the date is valid and a blocked date has the
  same time value, to the millisecond: the time of day is compared, not ignored. When
  the date and all the blocked dates are the first milliseconds of their calendar days,
  this is membership by calendar-day equality.
\<close>

theorem blocked_iff_same_time_value:
  assumes "blockedDates (configuration v) = Some bs"
  shows "(blocked v (Some d) = Some True) = (\<exists>t. d = Date t \<and> Date t \<in> set bs)
         \<and> (atStartOfDay d \<and> list_all atStartOfDay bs \<longrightarrow>
              (blocked v (Some d) = Some True) = (\<exists>b \<in> set bs. sameDay b d))"
proof (intro conjI impI)
  show exact: "(blocked v (Some d) = Some True) = (\<exists>t. d = Date t \<and> Date t \<in> set bs)"
    using assms find_isEqual [of d bs] by (simp add: blocked_def)
  assume start: "atStartOfDay d \<and> list_all atStartOfDay bs"
  then obtain t where t: "d = Date t" by (cases d) auto
  from start have "sameDay b d = (b = d)" if "b \<in> set bs" for b
    using that by (simp add: sameDay_at_start list_all_iff)
  then have "(\<exists>b \<in> set bs. sameDay b d) = (d \<in> set bs)" by auto
  with exact t show "(blocked v (Some d) = Some True) = (\<exists>b \<in> set bs. sameDay b d)"
    by auto
qed

text \<open>
  C5 (as amended), at an input: 1 January 2024 is blocked, and queried, both at the
  first millisecond of the day.
\<close>

theorem blocked_iff_same_time_value_witness:
  "blockedDates (configuration (picker (emptyConfiguration\<lparr>blockedDates := Some [Date 1704067200000]\<rparr>) None))
     = Some [Date 1704067200000]
   \<and> atStartOfDay (Date 1704067200000)
   \<and> list_all atStartOfDay [Date 1704067200000]
   \<and> sameDay (Date 1704067200000) (Date 1704067200000)
   \<and> blocked (picker (emptyConfiguration\<lparr>blockedDates := Some [Date 1704067200000]\<rparr>) None)
        (Some (Date 1704067200000)) = Some True"
proof -
  let ?v = "picker (emptyConfiguration\<lparr>blockedDates := Some [Date 1704067200000]\<rparr>) None"
  have b: "blockedDates (configuration ?v) = Some [Date 1704067200000]"
    by (simp add: picker_eval)
  have start: "atStartOfDay (Date 1704067200000)" "list_all atStartOfDay [Date 1704067200000]"
    by (simp_all add: startOfDay_def msPerDay_def)
  have same: "sameDay (Date 1704067200000) (Date 1704067200000)" by simp
  from blocked_iff_same_time_value [OF b, of "Date 1704067200000"] start same
  have "blocked ?v (Some (Date 1704067200000)) = Some True" by simp
  with b start same show ?thesis by simp
qed

text \<open>
  The claim as the specification states it fails: with 1 January 2024 blocked, noon
  of 1 January 2024 is the same calendar day and is not flagged.
\<close>

theorem blocked_compares_time_of_day:
  "blockedDates (configuration (picker (emptyConfiguration\<lparr>blockedDates := Some [Date 1704067200000]\<rparr>) None))
     = Some [Date 1704067200000]
   \<and> normalizeDate (Date 1704110400000) = normalizeDate (Date 1704067200000)
   \<and> blocked (picker (emptyConfiguration\<lparr>blockedDates := Some [Date 1704067200000]\<rparr>) None)
        (Some (Date 1704110400000)) = Some False"
  by (simp add: picker_eval blocked_def)

section \<open>Formatting a selection of another shape\<close>

text \<open>
  C4 (as amended). Under a recognised selection variant the formatter returns
  "Invalid Selection" for a selection that is neither a date, nor an array, nor a
  range. A selection of one of these three shapes under a variant of another shape is
  not rejected but handed to the date formatter. Single mode formats the \<^verbatim>\<open>from\<close> date of
  a range and the first element of an array. Multi mode formats a date, and formats a
  range as its \<^verbatim>\<open>to\<close> date, a comma and its \<^verbatim>\<open>from\<close> date, with nothing for a \<^verbatim>\<open>to\<close>
  that is null. Range mode formats a date as the date and a dash, and an array as its
  first two elements around a dash, with nothing for an element that is missing. Under
  an unrecognised variant every selection that is not empty gives "Invalid
  Configuration", and under every variant the empty selection gives the placeholder.
\<close>

theorem format_coerces_mismatched_shapes:
  "(selectionVariant (configuration s) \<in> {Some ''single'', Some ''multi'', Some ''range''}
      \<and> selection s = Some SOther
      \<longrightarrow> getFormattedDate format s = Inr (Some ''Invalid Selection''))
   \<and> (selectionVariant (configuration s) \<notin> {Some ''single'', Some ''multi'', Some ''range''}
      \<and> selection s = Some sel
      \<longrightarrow> getFormattedDate format s = Inr (Some ''Invalid Configuration''))
   \<and> (selection s = None
      \<longrightarrow> getFormattedDate format s = Inr (placeholder (configuration s)))
   \<and> (selectionVariant (configuration s) = Some ''single''
      \<and> selection s = Some (SRange r)
      \<longrightarrow> getFormattedDate format s
            = map_sum id Some (format (Some (rangeFrom r)) (template (configuration s))))
   \<and> (selectionVariant (configuration s) = Some ''single''
      \<and> selection s = Some (SArray ds)
      \<longrightarrow> getFormattedDate format s
            = map_sum id Some (format (index ds 0) (template (configuration s))))
   \<and> (selectionVariant (configuration s) = Some ''multi''
      \<and> selection s = Some (SDate d)
      \<longrightarrow> getFormattedDate format s
            = map_sum id Some (format (Some d) (template (configuration s))))
   \<and> (selectionVariant (configuration s) = Some ''multi''
      \<and> selection s = Some (SRange (FromTo f None))
      \<longrightarrow> getFormattedDate format s
            = map_sum id (\<lambda>x. Some ('', '' @ x)) (format (Some f) (template (configuration s))))
   \<and> (selectionVariant (configuration s) = Some ''multi''
      \<and> selection s = Some (SRange (FromTo f (Some e)))
      \<longrightarrow> getFormattedDate format s
            = (case format (Some e) (template (configuration s)) of
                 Inl err \<Rightarrow> Inl err
               | Inr y \<Rightarrow>
                   map_sum id (\<lambda>x. Some (y @ '', '' @ x))
                     (format (Some f) (template (configuration s)))))
   \<and> (selectionVariant (configuration s) = Some ''range''
      \<and> selection s = Some (SDate d)
      \<longrightarrow> getFormattedDate format s
            = map_sum id (\<lambda>x. Some (x @ '' - '')) (format (Some d) (template (configuration s))))
   \<and> (selectionVariant (configuration s) = Some ''range''
      \<and> selection s = Some (SArray [])
      \<longrightarrow> getFormattedDate format s = Inr (Some '' - ''))
   \<and> (selectionVariant (configuration s) = Some ''range''
      \<and> selection s = Some (SArray [a])
      \<longrightarrow> getFormattedDate format s
            = map_sum id (\<lambda>x. Some (x @ '' - '')) (format (Some a) (template (configuration s))))
   \<and> (selectionVariant (configuration s) = Some ''range''
      \<and> selection s = Some (SArray (a # b # rest))
      \<longrightarrow> getFormattedDate format s
            = (case format (Some a) (template (configuration s)) of
                 Inl err \<Rightarrow> Inl err
               | Inr x \<Rightarrow>
                   map_sum id (\<lambda>y. Some (x @ '' - '' @ y))
                     (format (Some b) (template (configuration s)))))"
  by (auto simp: getFormattedDate_def Let_def joined_def formatOrBlank_def
      split: sum.splits)

text \<open>
  C4 (as amended), at an input for each case, with the formatter of the built-in
  templates and the dates 5 and 10 March 2024: pickers of a variant whose selection has
  been set to a value of another shape, a picker of the unknown variant "week", and a
  single picker mounted on no value, which shows the default placeholder.
\<close>

theorem format_coerces_mismatched_shapes_witness:
  "getFormattedDate formatEnUS (holding ''multi'' SOther) = Inr (Some ''Invalid Selection'')
   \<and> getFormattedDate formatEnUS (holding ''week'' (SDate (Date 1710028800000)))
       = Inr (Some ''Invalid Configuration'')
   \<and> getFormattedDate formatEnUS (picker (variantOnly ''single'') None)
       = Inr (Some ''Select a Date...'')
   \<and> getFormattedDate formatEnUS
         (holding ''single'' (SRange (FromTo (Date 1710028800000) None)))
       = Inr (Some ''Mar 10'')
   \<and> getFormattedDate formatEnUS
         (holding ''single'' (SArray [Date 1709596800000, Date 1710028800000]))
       = Inr (Some ''Mar 5'')
   \<and> getFormattedDate formatEnUS (holding ''multi'' (SDate (Date 1710028800000)))
       = Inr (Some ''Mar 10'')
   \<and> getFormattedDate formatEnUS
         (holding ''multi'' (SRange (FromTo (Date 1709596800000) None)))
       = Inr (Some '', Mar 5'')
   \<and> getFormattedDate formatEnUS
         (holding ''multi'' (SRange (FromTo (Date 1709596800000) (Some (Date 1710028800000)))))
       = Inr (Some ''Mar 10, Mar 5'')
   \<and> getFormattedDate formatEnUS (holding ''range'' (SDate (Date 1710028800000)))
       = Inr (Some ''Mar 10 - '')
   \<and> getFormattedDate formatEnUS (holding ''range'' (SArray [])) = Inr (Some '' - '')
   \<and> getFormattedDate formatEnUS (holding ''range'' (SArray [Date 1709596800000]))
       = Inr (Some ''Mar 5 - '')
   \<and> getFormattedDate formatEnUS
         (holding ''range'' (SArray [Date 1709596800000, Date 1710028800000]))
       = Inr (Some ''Mar 5 - Mar 10'')"
proof -
  note fmt = formatEnUS_Mar5 formatEnUS_Mar10
  have none: "selection (picker (variantOnly ''single'') None) = None"
    and shown: "placeholder (configuration (picker (variantOnly ''single'') None))
        = Some ''Select a Date...''"
    by (simp_all add: picker_eval)
  have c1: "getFormattedDate formatEnUS (holding ''multi'' SOther) = Inr (Some ''Invalid Selection'')"
    using format_coerces_mismatched_shapes [where s = "holding ''multi'' SOther"] by simp
  have c2: "getFormattedDate formatEnUS (holding ''week'' (SDate (Date 1710028800000)))
       = Inr (Some ''Invalid Configuration'')"
    using format_coerces_mismatched_shapes
      [where s = "holding ''week'' (SDate (Date 1710028800000))"
         and sel = "SDate (Date 1710028800000)"]
    by simp
  have c3: "getFormattedDate formatEnUS (picker (variantOnly ''single'') None)
       = Inr (Some ''Select a Date...'')"
    using format_coerces_mismatched_shapes [where s = "picker (variantOnly ''single'') None"]
      none shown
    by simp
  have c4: "getFormattedDate formatEnUS
         (holding ''single'' (SRange (FromTo (Date 1710028800000) None)))
       = Inr (Some ''Mar 10'')"
    using format_coerces_mismatched_shapes
      [where s = "holding ''single'' (SRange (FromTo (Date 1710028800000) None))"
         and r = "FromTo (Date 1710028800000) None" and format = formatEnUS]
    by (simp add: fmt)
  have c5: "getFormattedDate formatEnUS
         (holding ''single'' (SArray [Date 1709596800000, Date 1710028800000]))
       = Inr (Some ''Mar 5'')"
    using format_coerces_mismatched_shapes
      [where s = "holding ''single'' (SArray [Date 1709596800000, Date 1710028800000])"
         and ds = "[Date 1709596800000, Date 1710028800000]" and format = formatEnUS]
    by (simp add: fmt)
  have c6: "getFormattedDate formatEnUS (holding ''multi'' (SDate (Date 1710028800000)))
       = Inr (Some ''Mar 10'')"
    using format_coerces_mismatched_shapes
      [where s = "holding ''multi'' (SDate (Date 1710028800000))"
         and d = "Date 1710028800000" and format = formatEnUS]
    by (simp add: fmt)
  have c7: "getFormattedDate formatEnUS
         (holding ''multi'' (SRange (FromTo (Date 1709596800000) None)))
       = Inr (Some '', Mar 5'')"
    using format_coerces_mismatched_shapes
      [where s = "holding ''multi'' (SRange (FromTo (Date 1709596800000) None))"
         and f = "Date 1709596800000" and format = formatEnUS]
    by (simp add: fmt)
  have c8: "getFormattedDate formatEnUS
         (holding ''multi'' (SRange (FromTo (Date 1709596800000) (Some (Date 1710028800000)))))
       = Inr (Some ''Mar 10, Mar 5'')"
    using format_coerces_mismatched_shapes
      [where s = "holding ''multi''
            (SRange (FromTo (Date 1709596800000) (Some (Date 1710028800000))))"
         and f = "Date 1709596800000" and e = "Date 1710028800000" and format = formatEnUS]
    by (simp add: fmt)
  have c9: "getFormattedDate formatEnUS (holding ''range'' (SDate (Date 1710028800000)))
       = Inr (Some ''Mar 10 - '')"
    using format_coerces_mismatched_shapes
      [where s = "holding ''range'' (SDate (Date 1710028800000))"
         and d = "Date 1710028800000" and format = formatEnUS]
    by (simp add: fmt)
  have c10: "getFormattedDate formatEnUS (holding ''range'' (SArray [])) = Inr (Some '' - '')"
    using format_coerces_mismatched_shapes [where s = "holding ''range'' (SArray [])"]
    by simp
  have c11: "getFormattedDate formatEnUS (holding ''range'' (SArray [Date 1709596800000]))
       = Inr (Some ''Mar 5 - '')"
    using format_coerces_mismatched_shapes
      [where s = "holding ''range'' (SArray [Date 1709596800000])"
         and a = "Date 1709596800000" and format = formatEnUS]
    by (simp add: fmt)
  have c12: "getFormattedDate formatEnUS
         (holding ''range'' (SArray [Date 1709596800000, Date 1710028800000]))
       = Inr (Some ''Mar 5 - Mar 10'')"
    using format_coerces_mismatched_shapes
      [where s = "holding ''range'' (SArray [Date 1709596800000, Date 1710028800000])"
         and a = "Date 1709596800000" and b = "Date 1710028800000" and rest = "[]"
         and format = formatEnUS]
    by (simp add: fmt)
  from c1 c2 c3 c4 c5 c6 c7 c8 c9 c10 c11 c12 show ?thesis by (intro conjI)
qed

text \<open>
  The claim as the specification states it fails on its own example, a range under
  single mode. In a single picker mounted on no value, saving the open range from
  10 March 2024 and reverting leaves the picker holding the range; its formatted date
  is then "Mar 10".
\<close>

theorem format_range_under_single_mode:
  "run (picker (variantOnly ''single'') None)
       [SaveValue (Some (SRange (FromTo (Date 1710028800000) None))), RevertValue]
     = Inr ((picker (variantOnly ''single'') None)
            \<lparr>previousSelection := Some (SRange (FromTo (Date 1710028800000) None)),
             selection := Some (SRange (FromTo (Date 1710028800000) None)),
             closed := 1, saved := 1\<rparr>)
   \<and> selectionVariant (configuration ((picker (variantOnly ''single'') None)
            \<lparr>previousSelection := Some (SRange (FromTo (Date 1710028800000) None)),
             selection := Some (SRange (FromTo (Date 1710028800000) None)),
             closed := 1, saved := 1\<rparr>))
     = Some ''single''
   \<and> getFormattedDate formatEnUS ((picker (variantOnly ''single'') None)
            \<lparr>previousSelection := Some (SRange (FromTo (Date 1710028800000) None)),
             selection := Some (SRange (FromTo (Date 1710028800000) None)),
             closed := 1, saved := 1\<rparr>)
     = Inr (Some ''Mar 10'')"
proof -
  let ?init = "picker (variantOnly ''single'') None"
  let ?held = "?init
            \<lparr>previousSelection := Some (SRange (FromTo (Date 1710028800000) None)),
             selection := Some (SRange (FromTo (Date 1710028800000) None)),
             closed := 1, saved := 1\<rparr>"
  have counters: "closePicker ?init" "closed ?init = 0" "saved ?init = 0"
    by (simp_all add: picker_eval)
  have r: "run ?init [SaveValue (Some (SRange (FromTo (Date 1710028800000) None))), RevertValue]
      = Inr ?held"
    by (simp add: saveValue_def revertValue_def counters)
  have variant: "selectionVariant (configuration ?held) = Some ''single''" by simp
  have "getFormattedDate formatEnUS ?held = Inr (Some ''Mar 10'')"
    by (simp add: getFormattedDate_def picker_template formatEnUS_Mar10)
  with r variant show ?thesis by simp
qed

end
